theory Spec2Isabelle
  imports Main "HOL-Library.Word"
begin

section \<open>The record identity model (internal/model/model.go)\<close>

text \<open>
  The Go string types \<open>DNSRecordType\<close>, \<open>DNSRecordName\<close> and
  \<open>DNSRecordSRVService\<close> are byte strings; the numeric ones are unsigned
  machine integers of the width the source declares.
\<close>

type_synonym DNSRecordType = string
type_synonym DNSRecordName = string
type_synonym DNSRecordTTL = "32 word"
type_synonym DNSRecordPrio = "16 word"
type_synonym DNSRecordSRVWeight = "16 word"
type_synonym DNSRecordSRVService = string
type_synonym DNSRecordSRVPort = "16 word"

abbreviation REC_A :: DNSRecordType where "REC_A \<equiv> ''A''"
abbreviation REC_AAAA :: DNSRecordType where "REC_AAAA \<equiv> ''AAAA''"
abbreviation REC_CNAME :: DNSRecordType where "REC_CNAME \<equiv> ''CNAME''"
abbreviation REC_MX :: DNSRecordType where "REC_MX \<equiv> ''MX''"
abbreviation REC_NS :: DNSRecordType where "REC_NS \<equiv> ''NS''"
abbreviation REC_SOA :: DNSRecordType where "REC_SOA \<equiv> ''SOA''"
abbreviation REC_SRV :: DNSRecordType where "REC_SRV \<equiv> ''SRV''"
abbreviation REC_TXT :: DNSRecordType where "REC_TXT \<equiv> ''TXT''"
abbreviation REC_PTR :: DNSRecordType where "REC_PTR \<equiv> ''PTR''"
abbreviation REC_NAPTR :: DNSRecordType where "REC_NAPTR \<equiv> ''NAPTR''"
abbreviation REC_DNAME :: DNSRecordType where "REC_DNAME \<equiv> ''DNAME''"
abbreviation REC_DS :: DNSRecordType where "REC_DS \<equiv> ''DS''"
abbreviation REC_SSHFP :: DNSRecordType where "REC_SSHFP \<equiv> ''SSHFP''"
abbreviation REC_TLSA :: DNSRecordType where "REC_TLSA \<equiv> ''TLSA''"
abbreviation REC_SVCB :: DNSRecordType where "REC_SVCB \<equiv> ''SVCB''"
abbreviation REC_HTTPS :: DNSRecordType where "REC_HTTPS \<equiv> ''HTTPS''"
abbreviation REC_URI :: DNSRecordType where "REC_URI \<equiv> ''URI''"
abbreviation REC_CAA :: DNSRecordType where "REC_CAA \<equiv> ''CAA''"
abbreviation REC_ANAME :: DNSRecordType where "REC_ANAME \<equiv> ''ANAME''"
abbreviation REC_FWD :: DNSRecordType where "REC_FWD \<equiv> ''FWD''"
abbreviation REC_APP :: DNSRecordType where "REC_APP \<equiv> ''APP''"

text \<open>
  The struct \<open>DNSRecord\<close>, field for field and in the order of the source. The
  field \<open>Domain\<close> is written \<open>Domain'\<close>, since \<open>Domain\<close> is the domain of a
  relation in HOL.
\<close>

record DNSRecord =
  Type :: DNSRecordType
  Domain' :: DNSRecordName
  TTL :: DNSRecordTTL
  Comments :: string
  ExpiryTTL :: DNSRecordTTL
  IPAddress :: string
  Ptr :: bool
  CreatePtrZone :: bool
  UpdateSvcbHints :: bool
  NameServer :: string
  Glue :: string
  CName :: string
  PtrName :: string
  Exchange :: string
  Preference :: DNSRecordPrio
  Text :: string
  SplitText :: bool
  Mailbox :: string
  TxtDomain :: string
  Priority :: DNSRecordPrio
  Weight :: DNSRecordSRVWeight
  Port :: DNSRecordSRVPort
  Target :: DNSRecordSRVService
  NaptrOrder :: "16 word"
  NaptrPreference :: "16 word"
  NaptrFlags :: string
  NaptrServices :: string
  NaptrRegexp :: string
  NaptrReplacement :: string
  DName :: string
  KeyTag :: "16 word"
  Algorithm :: string
  DigestType :: string
  Digest :: string
  SshfpAlgorithm :: string
  SshfpFingerprintType :: string
  SshfpFingerprint :: string
  TlsaCertificateUsage :: string
  TlsaSelector :: string
  TlsaMatchingType :: string
  TlsaCertificateAssociationData :: string
  SvcPriority :: "16 word"
  SvcTargetName :: string
  SvcParams :: string
  AutoIpv4Hint :: bool
  AutoIpv6Hint :: bool
  UriPriority :: "16 word"
  UriWeight :: "16 word"
  Uri :: string
  Flags :: string
  Tag :: string
  Value :: string
  AName :: string
  Protocol :: string
  Forwarder :: string
  ForwarderPriority :: "16 word"
  DnssecValidation :: bool
  ProxyType :: string
  ProxyAddress :: string
  ProxyPort :: "16 word"
  ProxyUsername :: string
  ProxyPassword :: string
  AppName :: string
  ClassPath :: string
  RecordData :: string

text \<open>
  Go's zero value of the struct: what a composite literal \<open>DNSRecord{...}\<close> starts
  from before the fields it names are set.
\<close>

definition zeroDNSRecord :: DNSRecord where
  "zeroDNSRecord = \<lparr>
     Type = [], Domain' = [], TTL = 0, Comments = [], ExpiryTTL = 0,
     IPAddress = [], Ptr = False, CreatePtrZone = False, UpdateSvcbHints = False,
     NameServer = [], Glue = [], CName = [], PtrName = [],
     Exchange = [], Preference = 0, Text = [], SplitText = False,
     Mailbox = [], TxtDomain = [],
     Priority = 0, Weight = 0, Port = 0, Target = [],
     NaptrOrder = 0, NaptrPreference = 0, NaptrFlags = [], NaptrServices = [],
     NaptrRegexp = [], NaptrReplacement = [],
     DName = [],
     KeyTag = 0, Algorithm = [], DigestType = [], Digest = [],
     SshfpAlgorithm = [], SshfpFingerprintType = [], SshfpFingerprint = [],
     TlsaCertificateUsage = [], TlsaSelector = [], TlsaMatchingType = [],
     TlsaCertificateAssociationData = [],
     SvcPriority = 0, SvcTargetName = [], SvcParams = [],
     AutoIpv4Hint = False, AutoIpv6Hint = False,
     UriPriority = 0, UriWeight = 0, Uri = [],
     Flags = [], Tag = [], Value = [],
     AName = [],
     Protocol = [], Forwarder = [], ForwarderPriority = 0, DnssecValidation = False,
     ProxyType = [], ProxyAddress = [], ProxyPort = 0, ProxyUsername = [],
     ProxyPassword = [],
     AppName = [], ClassPath = [], RecordData = [] \<rparr>"

text \<open>
  \<open>func (r DNSRecord) SameKey(r1 DNSRecord) bool\<close>: the receiver is the first
  argument. The \<open>switch\<close> on \<open>r.Type\<close> is the chain of tests below, in the
  order of its cases; the \<open>println\<close> of the first branch writes to standard error
  and returns nothing, so it has no part in the result.
\<close>

definition SameKey :: "DNSRecord \<Rightarrow> DNSRecord \<Rightarrow> bool" where
  "SameKey r r1 =
    (if Type r \<noteq> Type r1 \<or> Domain' r \<noteq> Domain' r1 then False
     else if Type r = REC_A \<or> Type r = REC_AAAA then
       (let ip1 = (if IPAddress r = [] then Value r else IPAddress r);
            ip2 = (if IPAddress r1 = [] then Value r1 else IPAddress r1)
        in ip1 = ip2 \<and> ip1 \<noteq> [])
     else if Type r = REC_CNAME \<or> Type r = REC_ANAME \<or> Type r = REC_DNAME then True
     else if Type r = REC_SRV then Port r = Port r1 \<and> Target r = Target r1
     else if Type r = REC_MX then Exchange r = Exchange r1
     else if Type r = REC_TXT then Text r = Text r1
     else if Type r = REC_PTR then PtrName r = PtrName r1
     else if Type r = REC_NS then NameServer r = NameServer r1
     else if Type r = REC_NAPTR then
       NaptrFlags r = NaptrFlags r1 \<and> NaptrServices r = NaptrServices r1 \<and>
       NaptrRegexp r = NaptrRegexp r1 \<and> NaptrReplacement r = NaptrReplacement r1
     else if Type r = REC_DS then
       KeyTag r = KeyTag r1 \<and> Algorithm r = Algorithm r1 \<and>
       DigestType r = DigestType r1 \<and> Digest r = Digest r1
     else if Type r = REC_SSHFP then
       SshfpAlgorithm r = SshfpAlgorithm r1 \<and>
       SshfpFingerprintType r = SshfpFingerprintType r1 \<and>
       SshfpFingerprint r = SshfpFingerprint r1
     else if Type r = REC_TLSA then
       TlsaCertificateUsage r = TlsaCertificateUsage r1 \<and>
       TlsaSelector r = TlsaSelector r1 \<and>
       TlsaMatchingType r = TlsaMatchingType r1 \<and>
       TlsaCertificateAssociationData r = TlsaCertificateAssociationData r1
     else if Type r = REC_SVCB \<or> Type r = REC_HTTPS then
       SvcTargetName r = SvcTargetName r1 \<and> SvcParams r = SvcParams r1
     else if Type r = REC_URI then
       UriPriority r = UriPriority r1 \<and> UriWeight r = UriWeight r1 \<and> Uri r = Uri r1
     else if Type r = REC_CAA then
       Flags r = Flags r1 \<and> Tag r = Tag r1 \<and> Value r = Value r1
     else if Type r = REC_FWD then Forwarder r = Forwarder r1
     else if Type r = REC_APP then AppName r = AppName r1 \<and> ClassPath r = ClassPath r1
     else False)"

text \<open>
  The address of an A or AAAA record as \<open>SameKey\<close> reads it (\<open>ip1\<close> and \<open>ip2\<close> of
  the source): the \<open>IPAddress\<close> field, or the \<open>Value\<close> field when \<open>IPAddress\<close>
  is empty.
\<close>

definition addressOf :: "DNSRecord \<Rightarrow> string" where
  "addressOf r = (if IPAddress r = [] then Value r else IPAddress r)"


section \<open>The reconciliation engine (internal/provider/record.go)\<close>

subsection \<open>Data of the engine\<close>

text \<open>
  \<open>record.go\<close> works on the record struct of the replace-set API: the fields its
  \<open>tf2model\<close> fills (\<open>Name\<close>, \<open>Type\<close>, \<open>Data\<close>, \<open>TTL\<close>, \<open>Priority\<close>) and those
  the client of that API reads and writes besides (\<open>Protocol\<close>, \<open>Service\<close>,
  \<open>Port\<close>, \<open>Weight\<close>). The fields carry the prefix \<open>rr\<close> to keep them apart from
  those of \<open>DNSRecord\<close> above. \<open>DNSUpdateRecord\<close> is the reduced form: the same
  fields without type and name.
\<close>

type_synonym DNSDomain = string
type_synonym DNSRecordData = string
type_synonym DNSRecordSRVProto = string

record RRecord =
  rrType :: DNSRecordType
  rrName :: DNSRecordName
  rrData :: DNSRecordData
  rrTTL :: DNSRecordTTL
  rrPriority :: DNSRecordPrio
  rrProtocol :: DNSRecordSRVProto
  rrService :: DNSRecordSRVService
  rrPort :: DNSRecordSRVPort
  rrWeight :: DNSRecordSRVWeight

record DNSUpdateRecord =
  updData :: DNSRecordData
  updTTL :: DNSRecordTTL
  updPriority :: DNSRecordPrio
  updProtocol :: DNSRecordSRVProto
  updService :: DNSRecordSRVService
  updPort :: DNSRecordSRVPort
  updWeight :: DNSRecordSRVWeight

text \<open>
  \<open>tfDNSRecord\<close>: the Terraform attributes, read through \<open>ValueString\<close> and
  \<open>ValueInt64\<close> (which give the empty string and 0 for a null attribute).
\<close>

record tfDNSRecord =
  tfDomain :: string
  tfType :: string
  tfName :: string
  tfData :: string
  tfTTL :: "64 word"
  tfPriority :: "64 word"

text \<open>
  Go errors as values. \<open>errRecordGone\<close> is the package's sentinel;
  \<open>Wrap e msg\<close> is \<open>errors.Wrap(e, msg)\<close>, a new error value that is never equal
  to the sentinel; \<open>ClientFailure\<close> stands for whatever the API client reports.
\<close>

datatype error = errRecordGone | ClientFailure string | Wrap error string

fun errorString :: "error \<Rightarrow> string" where
  "errorString errRecordGone = ''record already gone''"
| "errorString (ClientFailure msg) = msg"
| "errorString (Wrap e msg) = msg @ '': '' @ errorString e"

datatype diagnostic = DiagError string string | DiagWarning string string

fun isDiagError :: "diagnostic \<Rightarrow> bool" where
  "isDiagError (DiagError _ _) = True"
| "isDiagError (DiagWarning _ _) = False"

definition HasError :: "diagnostic list \<Rightarrow> bool" where
  "HasError ds = list_ex isDiagError ds"

text \<open>
  The calls an operation issues against the API, in order. The server is an external
  collaborator with a state of its own (\<open>'s\<close>): each client method takes the state
  and returns its answer with the new state. A world is the server's state with the
  calls issued so far.
\<close>

datatype apiCall =
    CallGetRecords DNSDomain DNSRecordType DNSRecordName
  | CallAddRecords DNSDomain "RRecord list"
  | CallSetRecords DNSDomain DNSRecordType DNSRecordName "DNSUpdateRecord list"
  | CallDelRecords DNSDomain DNSRecordType DNSRecordName

fun isMutating :: "apiCall \<Rightarrow> bool" where
  "isMutating (CallGetRecords _ _ _) = False"
| "isMutating (CallAddRecords _ _) = True"
| "isMutating (CallSetRecords _ _ _ _) = True"
| "isMutating (CallDelRecords _ _ _) = True"

record 's DNSApiClient =
  GetRecords :: "DNSDomain \<Rightarrow> DNSRecordType \<Rightarrow> DNSRecordName \<Rightarrow> 's
                   \<Rightarrow> (error + RRecord list) \<times> 's"
  AddRecords :: "DNSDomain \<Rightarrow> RRecord list \<Rightarrow> 's \<Rightarrow> error option \<times> 's"
  SetRecords :: "DNSDomain \<Rightarrow> DNSRecordType \<Rightarrow> DNSRecordName \<Rightarrow> DNSUpdateRecord list
                   \<Rightarrow> 's \<Rightarrow> error option \<times> 's"
  DelRecords :: "DNSDomain \<Rightarrow> DNSRecordType \<Rightarrow> DNSRecordName \<Rightarrow> 's
                   \<Rightarrow> error option \<times> 's"

type_synonym 's world = "'s \<times> apiCall list"

definition doGetRecords ::
  "'s DNSApiClient \<Rightarrow> DNSDomain \<Rightarrow> DNSRecordType \<Rightarrow> DNSRecordName \<Rightarrow> 's world
     \<Rightarrow> (error + RRecord list) \<times> 's world" where
  "doGetRecords c d t n w =
     (case GetRecords c d t n (fst w) of
        (r, s') \<Rightarrow> (r, (s', snd w @ [CallGetRecords d t n])))"

definition doAddRecords ::
  "'s DNSApiClient \<Rightarrow> DNSDomain \<Rightarrow> RRecord list \<Rightarrow> 's world \<Rightarrow> error option \<times> 's world" where
  "doAddRecords c d recs w =
     (case AddRecords c d recs (fst w) of
        (r, s') \<Rightarrow> (r, (s', snd w @ [CallAddRecords d recs])))"

definition doSetRecords ::
  "'s DNSApiClient \<Rightarrow> DNSDomain \<Rightarrow> DNSRecordType \<Rightarrow> DNSRecordName \<Rightarrow> DNSUpdateRecord list
     \<Rightarrow> 's world \<Rightarrow> error option \<times> 's world" where
  "doSetRecords c d t n upds w =
     (case SetRecords c d t n upds (fst w) of
        (r, s') \<Rightarrow> (r, (s', snd w @ [CallSetRecords d t n upds])))"

definition doDelRecords ::
  "'s DNSApiClient \<Rightarrow> DNSDomain \<Rightarrow> DNSRecordType \<Rightarrow> DNSRecordName \<Rightarrow> 's world
     \<Rightarrow> error option \<times> 's world" where
  "doDelRecords c d t n w =
     (case DelRecords c d t n (fst w) of
        (r, s') \<Rightarrow> (r, (s', snd w @ [CallDelRecords d t n])))"

text \<open>
  The parts of the model package that \<open>record.go\<close> calls on its records:
  \<open>rec.SameKey(state)\<close>, \<open>rec.ToUpdate()\<close> and \<open>Type.IsSingleValue()\<close>. The engine
  takes them as parameters, so what is proved of it holds for every choice of them.
\<close>

record modelOps =
  opSameKey :: "RRecord \<Rightarrow> RRecord \<Rightarrow> bool"
  opToUpdate :: "RRecord \<Rightarrow> DNSUpdateRecord"
  opIsSingleValue :: "DNSRecordType \<Rightarrow> bool"

text \<open>
  \<open>tf2model\<close>: the conversions \<open>DNSRecordTTL(int64)\<close> and \<open>DNSRecordPrio(int64)\<close>
  keep the low 32 and 16 bits.
\<close>

definition tf2model :: "tfDNSRecord \<Rightarrow> DNSDomain \<times> RRecord" where
  "tf2model t =
     (tfDomain t,
      \<lparr> rrType = tfType t, rrName = tfName t, rrData = tfData t,
        rrTTL = ucast (tfTTL t), rrPriority = ucast (tfPriority t),
        rrProtocol = [], rrService = [], rrPort = 0, rrWeight = 0 \<rparr>)"


subsection \<open>Requests and responses\<close>

text \<open>
  \<open>req.Plan.Get\<close> and \<open>req.State.Get\<close> decode the planned and the prior
  attributes and return diagnostics; a request holds what each of them gives. A
  response holds the diagnostics appended so far and what the operation did to the
  Terraform state. \<open>resp.State.Set\<close> with the operation's own struct is taken to
  return no diagnostics.
\<close>

record Request =
  reqPlan :: "diagnostic list \<times> tfDNSRecord"
  reqState :: "diagnostic list \<times> tfDNSRecord"

datatype stateAction = StateUntouched | StateSet tfDNSRecord | StateRemoved

record Response =
  Diagnostics :: "diagnostic list"
  NewState :: stateAction

subsection \<open>apiRecsToKeep\<close>

text \<open>
  The loop over \<open>apiAllRecs\<close>: \<open>res\<close> grows at its end, \<open>matchesWithState\<close>
  counts the records with the key of the state. The counter is a Go \<open>int\<close>; it is
  at most the length of a slice, so it never wraps and is a natural number here.
\<close>

fun keepLoop ::
  "modelOps \<Rightarrow> RRecord \<Rightarrow> RRecord list \<Rightarrow> DNSUpdateRecord list \<times> nat
     \<Rightarrow> DNSUpdateRecord list \<times> nat" where
  "keepLoop m apiRecState [] acc = acc"
| "keepLoop m apiRecState (r # rs) (res, matchesWithState) =
     (if opSameKey m r apiRecState
      then keepLoop m apiRecState rs (res, matchesWithState + 1)
      else keepLoop m apiRecState rs (res @ [opToUpdate m r], matchesWithState))"

definition apiRecsToKeep ::
  "modelOps \<Rightarrow> 's DNSApiClient \<Rightarrow> tfDNSRecord \<Rightarrow> 's world
     \<Rightarrow> (DNSUpdateRecord list \<times> error option) \<times> 's world" where
  "apiRecsToKeep m c stateData w =
     (case tf2model stateData of
        (apiDomain, apiRecState) \<Rightarrow>
          (case doGetRecords c apiDomain (rrType apiRecState) (rrName apiRecState) w of
             (Inl err, w') \<Rightarrow> (([], Some (Wrap err ''Client error: query failed'')), w')
           | (Inr apiAllRecs, w') \<Rightarrow>
               (case (if length apiAllRecs = 0 then ([], 0)
                      else keepLoop m apiRecState apiAllRecs ([], 0)) of
                  (res, matchesWithState) \<Rightarrow>
                    if matchesWithState \<noteq> 1
                    then (if matchesWithState = 0
                          then ((res, Some errRecordGone), w')
                          else ((res, None), w'))
                    else ((res, None), w'))))"

subsection \<open>Update\<close>

text \<open>The tail shared by both branches of \<open>Update\<close>: the test of \<open>err\<close> after them.\<close>

definition finishUpdate ::
  "diagnostic list \<Rightarrow> tfDNSRecord \<Rightarrow> error option \<times> 's world \<Rightarrow> Response \<times> 's world" where
  "finishUpdate diags planData r =
     (case r of
        (Some e, w) \<Rightarrow>
          (\<lparr> Diagnostics =
                diags @ [DiagError ''Client Error'' (''Updating DNS failed: '' @ errorString e)],
              NewState = StateUntouched \<rparr>, w)
      | (None, w) \<Rightarrow> (\<lparr> Diagnostics = diags, NewState = StateSet planData \<rparr>, w))"

definition Update ::
  "modelOps \<Rightarrow> 's DNSApiClient \<Rightarrow> Request \<Rightarrow> 's world \<Rightarrow> Response \<times> 's world" where
  "Update m c req w =
     (case reqPlan req of
        (planDiags, planData) \<Rightarrow>
          if HasError planDiags
          then (\<lparr> Diagnostics = planDiags, NewState = StateUntouched \<rparr>, w)
          else
            (case tf2model planData of
               (apiDomain, apiRecPlan) \<Rightarrow>
                 if opIsSingleValue m (rrType apiRecPlan)
                 then finishUpdate planDiags planData
                        (doSetRecords c apiDomain (rrType apiRecPlan) (rrName apiRecPlan)
                           [\<lparr> updData = rrData apiRecPlan, updTTL = rrTTL apiRecPlan,
                              updPriority = 0, updProtocol = [], updService = [],
                              updPort = 0, updWeight = 0 \<rparr>] w)
                 else
                   (case reqState req of
                      (stateDiags, stateData) \<Rightarrow>
                        if HasError (planDiags @ stateDiags)
                        then (\<lparr> Diagnostics = planDiags @ stateDiags,
                                NewState = StateUntouched \<rparr>, w)
                        else
                          (case apiRecsToKeep m c stateData w of
                             ((apiUpdateRecs, err), w1) \<Rightarrow>
                               if err \<noteq> None \<and> err \<noteq> Some errRecordGone
                               then (\<lparr> Diagnostics = planDiags @ stateDiags @
                                         [DiagError ''Client Error''
                                            (''Getting DNS records to keep failed: '' @
                                             (case err of Some e \<Rightarrow> errorString e | None \<Rightarrow> []))],
                                       NewState = StateUntouched \<rparr>, w1)
                               else
                                 (let oldGone = (err = Some errRecordGone);
                                      ourRec = \<lparr> updData = rrData apiRecPlan,
                                                 updTTL = rrTTL apiRecPlan,
                                                 updPriority = rrPriority apiRecPlan,
                                                 updProtocol = [], updService = [],
                                                 updPort = 0, updWeight = 0 \<rparr>;
                                      newPresent = (ourRec \<in> set apiUpdateRecs);
                                      apiUpdateRecs' =
                                        (if newPresent then apiUpdateRecs
                                         else apiUpdateRecs @ [ourRec])
                                  in if oldGone \<and> newPresent
                                     then finishUpdate (planDiags @ stateDiags) planData (None, w1)
                                     else finishUpdate (planDiags @ stateDiags) planData
                                            (doSetRecords c apiDomain (rrType apiRecPlan)
                                               (rrName apiRecPlan) apiUpdateRecs' w1))))))"

subsection \<open>Delete\<close>

text \<open>
  \<open>Delete\<close> returns only diagnostics; removing the resource from the state is the
  framework's work. In the multi-valued branch the source reads the state a second
  time into a new \<open>stateData\<close>, so its diagnostics are appended twice.
\<close>

definition Delete ::
  "modelOps \<Rightarrow> 's DNSApiClient \<Rightarrow> Request \<Rightarrow> 's world \<Rightarrow> Response \<times> 's world" where
  "Delete m c req w =
     (case reqState req of
        (stateDiags, stateData) \<Rightarrow>
          if HasError stateDiags
          then (\<lparr> Diagnostics = stateDiags, NewState = StateUntouched \<rparr>, w)
          else
            (case tf2model stateData of
               (apiDomain, apiRecState) \<Rightarrow>
                 if opIsSingleValue m (rrType apiRecState)
                 then
                   (case doDelRecords c apiDomain (rrType apiRecState) (rrName apiRecState) w of
                      (Some e, w1) \<Rightarrow>
                        (\<lparr> Diagnostics = stateDiags @
                              [DiagError ''Client Error''
                                 (''Deleting DNS record failed: '' @ errorString e)],
                            NewState = StateUntouched \<rparr>, w1)
                    | (None, w1) \<Rightarrow>
                        (\<lparr> Diagnostics = stateDiags, NewState = StateUntouched \<rparr>, w1))
                 else
                   (case reqState req of
                      (stateDiags2, stateData2) \<Rightarrow>
                        if HasError (stateDiags @ stateDiags2)
                        then (\<lparr> Diagnostics = stateDiags @ stateDiags2,
                                NewState = StateUntouched \<rparr>, w)
                        else
                          (case apiRecsToKeep m c stateData2 w of
                             ((keep, Some e), w1) \<Rightarrow>
                               if e = errRecordGone
                               then (\<lparr> Diagnostics = stateDiags @ stateDiags2,
                                       NewState = StateUntouched \<rparr>, w1)
                               else (\<lparr> Diagnostics = stateDiags @ stateDiags2 @
                                         [DiagError ''Client Error''
                                            (''Getting DNS records to keep failed: '' @
                                             errorString e)],
                                       NewState = StateUntouched \<rparr>, w1)
                           | ((keep, None), w1) \<Rightarrow>
                               (case (if length keep = 0
                                      then doDelRecords c apiDomain (rrType apiRecState)
                                             (rrName apiRecState) w1
                                      else doSetRecords c apiDomain (rrType apiRecState)
                                             (rrName apiRecState) keep w1) of
                                  (Some e, w2) \<Rightarrow>
                                    (\<lparr> Diagnostics = stateDiags @ stateDiags2 @
                                          [DiagError ''Client Error''
                                             (''Replacing DNS records failed: '' @
                                              errorString e)],
                                        NewState = StateUntouched \<rparr>, w2)
                                | (None, w2) \<Rightarrow>
                                    (\<lparr> Diagnostics = stateDiags @ stateDiags2,
                                        NewState = StateUntouched \<rparr>, w2))))))"


section \<open>Importing a record (RecordResource.ImportState of the Technitium resource)\<close>

text \<open>
  The record resource of the Technitium API (\<open>src/unnamed/part_007\<close>): its
  \<open>ImportState\<close> parses the import identifier \<open>zone:name:TYPE:value\<close> in place.
\<close>

text \<open>
  \<open>strings.Split(s, sep)\<close> and \<open>strings.SplitN(s, sep, n)\<close> for a separator of one
  byte, which is all \<open>ImportState\<close> uses (\<open>IMPORT_SEP\<close> and the blank). \<open>Split\<close> of
  the empty string is the list of one empty string; \<open>SplitN\<close> gives at most \<open>n\<close>
  parts, the last being the unsplit rest, and none for \<open>n = 0\<close>.
\<close>

fun Split :: "string \<Rightarrow> char \<Rightarrow> string list" where
  "Split [] sep = [[]]"
| "Split (x # xs) sep =
     (if x = sep then [] # Split xs sep
      else (case Split xs sep of
              p # ps \<Rightarrow> (x # p) # ps
            | [] \<Rightarrow> [[x]]))"

fun SplitN :: "string \<Rightarrow> char \<Rightarrow> nat \<Rightarrow> string list" where
  "SplitN s sep 0 = []"
| "SplitN s sep (Suc 0) = [s]"
| "SplitN [] sep (Suc (Suc n)) = [[]]"
| "SplitN (x # xs) sep (Suc (Suc n)) =
     (if x = sep then [] # SplitN xs sep (Suc n)
      else (case SplitN xs sep (Suc (Suc n)) of
              p # ps \<Rightarrow> (x # p) # ps
            | [] \<Rightarrow> [[x]]))"

definition IMPORT_SEP :: char where
  "IMPORT_SEP = CHR '':''"

text \<open>
  \<open>strconv.ParseInt(s, 10, 64)\<close>: an optional sign, then decimal digits only; the
  empty string, a sign alone, any other byte and a value outside the 64-bit signed
  range are errors (\<open>None\<close>).
\<close>

definition isDigit :: "char \<Rightarrow> bool" where
  "isDigit c = (48 \<le> (of_char c :: nat) \<and> (of_char c :: nat) \<le> 57)"

fun digitsValue :: "string \<Rightarrow> nat \<Rightarrow> nat option" where
  "digitsValue [] acc = Some acc"
| "digitsValue (c # cs) acc =
     (if isDigit c then digitsValue cs (acc * 10 + (of_char c - 48)) else None)"

definition ParseUint :: "string \<Rightarrow> nat option" where
  "ParseUint s = (if s = [] then None else digitsValue s 0)"

definition ParseInt :: "string \<Rightarrow> int option" where
  "ParseInt s =
     (if s = [] then None
      else
        (let neg = (hd s = CHR ''-'');
             s' = (if hd s = CHR ''+'' \<or> hd s = CHR ''-'' then tl s else s)
         in case ParseUint s' of
              None \<Rightarrow> None
            | Some un \<Rightarrow>
                if \<not> neg \<and> un \<ge> 2 ^ 63 then None
                else if neg \<and> un > 2 ^ 63 then None
                else Some (if neg then - int un else int un)))"

text \<open>
  What \<open>ImportState\<close> leaves in its response: the diagnostics and the attributes it
  set, in the order of the \<open>SetAttribute\<close> calls (taken to return no diagnostics).
\<close>

datatype attrValue = AttrString string | AttrInt64 int

record ImportStateResponse =
  impDiagnostics :: "diagnostic list"
  impAttributes :: "(string \<times> attrValue) list"

text \<open>The \<open>switch recordType\<close> of \<open>ImportState\<close>: the attributes set from the value.\<close>

definition importValueAttributes :: "string \<Rightarrow> string \<Rightarrow> (string \<times> attrValue) list" where
  "importValueAttributes recordType v =
     (if recordType = ''A'' \<or> recordType = ''AAAA'' then [(''ip_address'', AttrString v)]
      else if recordType = ''CNAME'' then [(''cname'', AttrString v)]
      else if recordType = ''MX'' then
        (let mxParts = SplitN v CHR '' '' 2
         in if length mxParts = 2
            then (case ParseInt (mxParts ! 0) of
                    Some pref \<Rightarrow> [(''preference'', AttrInt64 pref)]
                  | None \<Rightarrow> [])
                 @ [(''exchange'', AttrString (mxParts ! 1))]
            else [])
      else if recordType = ''NS'' then [(''name_server'', AttrString v)]
      else if recordType = ''PTR'' then [(''ptr_name'', AttrString v)]
      else if recordType = ''SRV'' then
        (let srvParts = Split v CHR '' ''
         in if length srvParts \<ge> 4
            then (case ParseInt (srvParts ! 0) of
                    Some prio \<Rightarrow> [(''priority'', AttrInt64 prio)]
                  | None \<Rightarrow> [])
                 @ (case ParseInt (srvParts ! 1) of
                      Some weight \<Rightarrow> [(''weight'', AttrInt64 weight)]
                    | None \<Rightarrow> [])
                 @ (case ParseInt (srvParts ! 2) of
                      Some port \<Rightarrow> [(''port'', AttrInt64 port)]
                    | None \<Rightarrow> [])
                 @ [(''target'', AttrString (srvParts ! 3))]
            else [])
      else if recordType = ''TXT'' then [(''text'', AttrString v)]
      else if recordType = ''CAA'' then
        (let caaParts = SplitN v CHR '' '' 3
         in if length caaParts \<ge> 3
            then [(''flags'', AttrString (caaParts ! 0)),
                  (''tag'', AttrString (caaParts ! 1)),
                  (''value'', AttrString (caaParts ! 2))]
            else [])
      else if recordType = ''ANAME'' then [(''aname'', AttrString v)]
      else if recordType = ''DNAME'' then [(''dname'', AttrString v)]
      else if recordType = ''FWD'' then [(''forwarder'', AttrString v)]
      else if recordType = ''URI'' then [(''uri'', AttrString v)]
      else [(''record_data'', AttrString v)])"

definition ImportState :: "string \<Rightarrow> ImportStateResponse" where
  "ImportState id' =
     (let parts = Split id' IMPORT_SEP
      in if length parts \<noteq> 4
         then \<lparr> impDiagnostics =
                  [DiagError ''Invalid import ID''
                     (''Import ID must be in format 'zone:name:TYPE:value', got: '' @ id')],
                impAttributes = [] \<rparr>
         else
           (let zone = parts ! 0;
                name = parts ! 1;
                recordType = parts ! 2;
                v = parts ! 3;
                domain = (if name = ''@'' then zone else name @ ''.'' @ zone)
            in \<lparr> impDiagnostics = [],
                 impAttributes =
                   [(''domain'', AttrString domain), (''type'', AttrString recordType)]
                   @ importValueAttributes recordType v
                   @ [(''ttl'', AttrInt64 3600)] \<rparr>))"

text \<open>Whether a diagnostic's detail contains a text (\<open>strings.Contains\<close>).\<close>

fun isPrefixOf :: "string \<Rightarrow> string \<Rightarrow> bool" where
  "isPrefixOf [] s = True"
| "isPrefixOf (p # ps) [] = False"
| "isPrefixOf (p # ps) (c # cs) = (p = c \<and> isPrefixOf ps cs)"

fun Contains :: "string \<Rightarrow> string \<Rightarrow> bool" where
  "Contains [] sub = (sub = [])"
| "Contains (c # cs) sub = (isPrefixOf sub (c # cs) \<or> Contains cs sub)"

fun diagDetail :: "diagnostic \<Rightarrow> string" where
  "diagDetail (DiagError summary detail) = detail"
| "diagDetail (DiagWarning summary detail) = detail"

section \<open>Sample parameters and inputs\<close>

text \<open>
  One choice of the engine's parameters, to run it on concrete inputs: records are the
  same when type, name and data agree, the reduced form copies every field it has,
  and \<open>CNAME\<close> is the single-valued type. The sample client answers every
  \<open>GetRecords\<close> with a fixed list and accepts every write; its server has no state.
\<close>

definition sampleOps :: modelOps where
  "sampleOps =
     \<lparr> opSameKey = (\<lambda>r r1. rrType r = rrType r1 \<and> rrName r = rrName r1 \<and> rrData r = rrData r1),
       opToUpdate = (\<lambda>r. \<lparr> updData = rrData r, updTTL = rrTTL r, updPriority = rrPriority r,
                             updProtocol = rrProtocol r, updService = rrService r,
                             updPort = rrPort r, updWeight = rrWeight r \<rparr>),
       opIsSingleValue = (\<lambda>t. t = REC_CNAME) \<rparr>"

definition sampleClient :: "RRecord list \<Rightarrow> unit DNSApiClient" where
  "sampleClient live =
     \<lparr> GetRecords = (\<lambda>d t n s. (Inr live, s)),
       AddRecords = (\<lambda>d recs s. (None, s)),
       SetRecords = (\<lambda>d t n upds s. (None, s)),
       DelRecords = (\<lambda>d t n s. (None, s)) \<rparr>"

definition txtRecord :: "string \<Rightarrow> RRecord" where
  "txtRecord text =
     \<lparr> rrType = REC_TXT, rrName = ''@'', rrData = text, rrTTL = 3600, rrPriority = 0,
       rrProtocol = [], rrService = [], rrPort = 0, rrWeight = 0 \<rparr>"

definition txtUpdate :: "string \<Rightarrow> DNSUpdateRecord" where
  "txtUpdate text =
     \<lparr> updData = text, updTTL = 3600, updPriority = 0,
       updProtocol = [], updService = [], updPort = 0, updWeight = 0 \<rparr>"

definition txtState :: "string \<Rightarrow> tfDNSRecord" where
  "txtState text =
     \<lparr> tfDomain = ''example.com'', tfType = REC_TXT, tfName = ''@'', tfData = text,
       tfTTL = 3600, tfPriority = 0 \<rparr>"

definition sampleRequest :: "tfDNSRecord \<Rightarrow> tfDNSRecord \<Rightarrow> Request" where
  "sampleRequest plan state = \<lparr> reqPlan = ([], plan), reqState = ([], state) \<rparr>"

definition aRecord :: "string \<Rightarrow> string \<Rightarrow> string \<Rightarrow> DNSRecord" where
  "aRecord d ip v =
     zeroDNSRecord\<lparr> Type := REC_A, Domain' := d, IPAddress := ip, Value := v \<rparr>"


section \<open>Properties of the record identity model\<close>

lemma aRecord_sel:
  "Type (aRecord d ip v) = REC_A" "Domain' (aRecord d ip v) = d"
  "IPAddress (aRecord d ip v) = ip" "Value (aRecord d ip v) = v"
  by (simp_all add: aRecord_def)

text \<open>
  C7. For two A records of equal type and domain, with the address that \<open>SameKey\<close>
  compares (\<open>IPAddress\<close>, or \<open>Value\<close> when \<open>IPAddress\<close> is empty): \<open>SameKey\<close> is
  false when the addresses are different and non-empty, true when they are equal and
  non-empty, and false when both addresses are empty.
\<close>

theorem SameKey_A_by_address:
  assumes "Type r = REC_A" and "Type r1 = REC_A" and "Domain' r = Domain' r1"
  shows "(addressOf r \<noteq> [] \<and> addressOf r1 \<noteq> [] \<and> addressOf r \<noteq> addressOf r1
            \<longrightarrow> \<not> SameKey r r1)
       \<and> (addressOf r \<noteq> [] \<and> addressOf r = addressOf r1 \<longrightarrow> SameKey r r1)
       \<and> (addressOf r = [] \<and> addressOf r1 = [] \<longrightarrow> \<not> SameKey r r1)"
  using assms by (auto simp add: SameKey_def addressOf_def Let_def)

theorem SameKey_A_by_address_witness:
  "\<not> SameKey (aRecord ''example.com'' ''1.2.3.4'' []) (aRecord ''example.com'' ''5.6.7.8'' [])
   \<and> SameKey (aRecord ''example.com'' ''1.2.3.4'' []) (aRecord ''example.com'' ''1.2.3.4'' [])
   \<and> \<not> SameKey (aRecord ''example.com'' [] []) (aRecord ''example.com'' [] [])
   \<and> \<not> SameKey (aRecord ''example.com'' [] ''1.2.3.4'') (aRecord ''example.com'' ''5.6.7.8'' [])"
  using
    SameKey_A_by_address
      [of "aRecord ''example.com'' ''1.2.3.4'' []" "aRecord ''example.com'' ''5.6.7.8'' []"]
    SameKey_A_by_address
      [of "aRecord ''example.com'' ''1.2.3.4'' []" "aRecord ''example.com'' ''1.2.3.4'' []"]
    SameKey_A_by_address
      [of "aRecord ''example.com'' [] []" "aRecord ''example.com'' [] []"]
    SameKey_A_by_address
      [of "aRecord ''example.com'' [] ''1.2.3.4''" "aRecord ''example.com'' ''5.6.7.8'' []"]
  by (simp add: aRecord_sel addressOf_def)

text \<open>
  C10. For two A or AAAA records of equal type and domain, \<open>SameKey\<close> compares, on
  each side, the \<open>IPAddress\<close> field, or the \<open>Value\<close> field when \<open>IPAddress\<close> is
  empty, and holds when the two are equal and not empty; so a record with
  \<open>IPAddress\<close> 1.2.3.4 and one with an empty \<open>IPAddress\<close> and \<open>Value\<close> 1.2.3.4
  are the same record.
\<close>

theorem SameKey_address_falls_back_to_Value:
  assumes "Type r = REC_A \<or> Type r = REC_AAAA"
    and "Type r1 = Type r" and "Domain' r1 = Domain' r"
  shows "SameKey r r1 =
           ((if IPAddress r = [] then Value r else IPAddress r)
              = (if IPAddress r1 = [] then Value r1 else IPAddress r1)
            \<and> (if IPAddress r = [] then Value r else IPAddress r) \<noteq> [])
       \<and> (IPAddress r = ''1.2.3.4'' \<and> IPAddress r1 = [] \<and> Value r1 = ''1.2.3.4''
            \<longrightarrow> SameKey r r1)"
  using assms by (auto simp add: SameKey_def Let_def)

theorem SameKey_address_falls_back_to_Value_witness:
  "SameKey (aRecord ''example.com'' ''1.2.3.4'' []) (aRecord ''example.com'' [] ''1.2.3.4'')"
  using SameKey_address_falls_back_to_Value
    [of "aRecord ''example.com'' ''1.2.3.4'' []" "aRecord ''example.com'' [] ''1.2.3.4''"]
  by (simp add: aRecord_sel)

section \<open>Properties of the reconciliation engine\<close>

lemma keepLoop_eq:
  "keepLoop m st rs (res, k) =
     (res @ map (opToUpdate m) (filter (\<lambda>r. \<not> opSameKey m r st) rs),
      k + length (filter (\<lambda>r. opSameKey m r st) rs))"
  by (induction rs arbitrary: res k) simp_all

text \<open>
  What \<open>apiRecsToKeep\<close> returns when the query succeeds: the reduced forms of the
  live records without the key of the state, the sentinel exactly when no live record
  has that key, and the world after the one \<open>GetRecords\<close> call.
\<close>

lemma apiRecsToKeep_Inr:
  assumes "GetRecords c (fst (tf2model st)) (rrType (snd (tf2model st)))
             (rrName (snd (tf2model st))) (fst w) = (Inr live, s')"
  shows "apiRecsToKeep m c st w =
           ((map (opToUpdate m) (filter (\<lambda>r. \<not> opSameKey m r (snd (tf2model st))) live),
             if filter (\<lambda>r. opSameKey m r (snd (tf2model st))) live = []
             then Some errRecordGone else None),
            (s', snd w @ [CallGetRecords (fst (tf2model st)) (rrType (snd (tf2model st)))
                            (rrName (snd (tf2model st)))]))"
proof (cases "tf2model st")
  case (Pair d rs)
  with assms have g: "GetRecords c d (rrType rs) (rrName rs) (fst w) = (Inr live, s')"
    by simp
  show ?thesis
  proof (cases live)
    case Nil
    with Pair g show ?thesis
      by (simp add: apiRecsToKeep_def doGetRecords_def)
  next
    case (Cons a as)
    have "length (filter (\<lambda>r. opSameKey m r rs) live) = 0
            \<longleftrightarrow> filter (\<lambda>r. opSameKey m r rs) live = []"
      by simp
    with Pair g Cons show ?thesis
      by (simp add: apiRecsToKeep_def doGetRecords_def keepLoop_eq del: keepLoop.simps)
  qed
qed

lemma apiRecsToKeep_calls:
  assumes "tf2model st = (d, rs)"
  shows "snd (snd (apiRecsToKeep m c st w)) = snd w @ [CallGetRecords d (rrType rs) (rrName rs)]"
  using assms
  by (simp add: apiRecsToKeep_def doGetRecords_def split: prod.splits sum.splits)

lemma HasError_append: "HasError (xs @ ys) = (HasError xs \<or> HasError ys)"
  by (simp add: HasError_def)

text \<open>
  C1. For a state record and the live records that \<open>GetRecords\<close> returns for its
  type and name, the keep-list of \<open>apiRecsToKeep\<close> is, in order, the reduced form of
  exactly the live records for which \<open>SameKey(live, state)\<close> is false; no record for
  which it holds contributes an entry.
\<close>

theorem apiRecsToKeep_keeps_non_matching:
  assumes "tf2model stateData = (apiDomain, apiRecState)"
    and "GetRecords c apiDomain (rrType apiRecState) (rrName apiRecState) (fst w)
           = (Inr live, s')"
  shows "fst (fst (apiRecsToKeep m c stateData w)) =
           map (opToUpdate m) (filter (\<lambda>r. \<not> opSameKey m r apiRecState) live)"
  using assms apiRecsToKeep_Inr [of c stateData w live s' m] by simp

theorem apiRecsToKeep_keeps_non_matching_witness:
  "fst (fst (apiRecsToKeep sampleOps
               (sampleClient [txtRecord ''v=one'', txtRecord ''v=two'', txtRecord ''v=three''])
               (txtState ''v=two'') ((), [])))
     = [txtUpdate ''v=one'', txtUpdate ''v=three'']"
  using apiRecsToKeep_keeps_non_matching
    [where stateData = "txtState ''v=two''" and apiDomain = "''example.com''"
       and apiRecState = "txtRecord ''v=two''"
       and c = "sampleClient [txtRecord ''v=one'', txtRecord ''v=two'', txtRecord ''v=three'']"
       and w = "((), [])" and s' = "()" and m = sampleOps
       and live = "[txtRecord ''v=one'', txtRecord ''v=two'', txtRecord ''v=three'']"]
  by (simp add: tf2model_def txtState_def txtRecord_def txtUpdate_def sampleClient_def
        sampleOps_def)

lemmas sample_defs =
  tf2model_def txtState_def txtRecord_def txtUpdate_def sampleClient_def sampleOps_def
  sampleRequest_def

text \<open>
  C2. For a state record of a multi-valued type: when none of the live records that
  \<open>GetRecords\<close> returns has the key of the state record, \<open>apiRecsToKeep\<close> returns
  the sentinel \<open>errRecordGone\<close>, and \<open>Delete\<close> issues the one \<open>GetRecords\<close> call and
  nothing else (no \<open>DelRecords\<close>, no \<open>SetRecords\<close>) and reports no error.
\<close>

theorem Delete_gone_issues_no_mutation:
  assumes "reqState req = (stateDiags, stateData)"
    and "\<not> HasError stateDiags"
    and "tf2model stateData = (apiDomain, apiRecState)"
    and "\<not> opIsSingleValue m (rrType apiRecState)"
    and "GetRecords c apiDomain (rrType apiRecState) (rrName apiRecState) (fst w)
           = (Inr live, s')"
    and "\<forall>r \<in> set live. \<not> opSameKey m r apiRecState"
  shows "snd (fst (apiRecsToKeep m c stateData w)) = Some errRecordGone
       \<and> snd (snd (Delete m c req w))
           = snd w @ [CallGetRecords apiDomain (rrType apiRecState) (rrName apiRecState)]
       \<and> filter isMutating (snd (snd (Delete m c req w))) = filter isMutating (snd w)
       \<and> \<not> HasError (Diagnostics (fst (Delete m c req w)))"
proof -
  from assms(6) have none: "filter (\<lambda>r. opSameKey m r apiRecState) live = []"
    by (simp add: filter_empty_conv)
  have k: "apiRecsToKeep m c stateData w =
             ((map (opToUpdate m) (filter (\<lambda>r. \<not> opSameKey m r apiRecState) live),
               Some errRecordGone),
              (s', snd w @ [CallGetRecords apiDomain (rrType apiRecState)
                              (rrName apiRecState)]))"
    using apiRecsToKeep_Inr [of c stateData w live s' m] assms(3,5) none by simp
  have d: "Delete m c req w =
             (\<lparr> Diagnostics = stateDiags @ stateDiags, NewState = StateUntouched \<rparr>,
              (s', snd w @ [CallGetRecords apiDomain (rrType apiRecState)
                              (rrName apiRecState)]))"
    using assms(1-4) k by (simp add: Delete_def HasError_append)
  show ?thesis using k d assms(2) by (simp add: HasError_append)
qed

theorem Delete_gone_issues_no_mutation_witness:
  "snd (fst (apiRecsToKeep sampleOps (sampleClient [txtRecord ''v=one''])
               (txtState ''v=two'') ((), []))) = Some errRecordGone
   \<and> snd (snd (Delete sampleOps (sampleClient [txtRecord ''v=one''])
                  (sampleRequest (txtState ''v=two'') (txtState ''v=two'')) ((), [])))
       = [CallGetRecords ''example.com'' REC_TXT ''@'']"
  using Delete_gone_issues_no_mutation
    [where req = "sampleRequest (txtState ''v=two'') (txtState ''v=two'')"
       and stateDiags = "[]" and stateData = "txtState ''v=two''"
       and apiDomain = "''example.com''" and apiRecState = "txtRecord ''v=two''"
       and c = "sampleClient [txtRecord ''v=one'']"
       and w = "((), [])" and s' = "()" and m = sampleOps
       and live = "[txtRecord ''v=one'']"]
  by (simp add: sample_defs HasError_def)

text \<open>
  C3. In an \<open>Update\<close> of a multi-valued type, when \<open>apiRecsToKeep\<close> reports the old
  record gone (\<open>errRecordGone\<close>) and the reduced form of the new record is among the
  entries it returns, \<open>Update\<close> ends in the world \<open>apiRecsToKeep\<close> left, which holds
  no mutating call beyond those before it (\<open>SetRecords\<close> is not invoked), and it
  succeeds: no error diagnostic, and the state is set to the plan.
\<close>

theorem Update_gone_and_present_is_noop:
  assumes "reqPlan req = (planDiags, planData)"
    and "\<not> HasError planDiags"
    and "tf2model planData = (apiDomain, apiRecPlan)"
    and "\<not> opIsSingleValue m (rrType apiRecPlan)"
    and "reqState req = (stateDiags, stateData)"
    and "\<not> HasError stateDiags"
    and "apiRecsToKeep m c stateData w = ((keep, Some errRecordGone), w')"
    and "\<lparr> updData = rrData apiRecPlan, updTTL = rrTTL apiRecPlan,
            updPriority = rrPriority apiRecPlan, updProtocol = [], updService = [],
            updPort = 0, updWeight = 0 \<rparr> \<in> set keep"
  shows "Update m c req w =
           (\<lparr> Diagnostics = planDiags @ stateDiags, NewState = StateSet planData \<rparr>, w')
       \<and> filter isMutating (snd w') = filter isMutating (snd w)
       \<and> \<not> HasError (Diagnostics (fst (Update m c req w)))"
proof -
  have u: "Update m c req w =
           (\<lparr> Diagnostics = planDiags @ stateDiags, NewState = StateSet planData \<rparr>, w')"
    using assms by (simp add: Update_def HasError_append finishUpdate_def Let_def)
  obtain d rs where t: "tf2model stateData = (d, rs)"
    by (cases "tf2model stateData")
  have "snd w' = snd w @ [CallGetRecords d (rrType rs) (rrName rs)]"
    using apiRecsToKeep_calls [OF t, of m c w] assms(7) by simp
  then have f: "filter isMutating (snd w') = filter isMutating (snd w)"
    by simp
  show ?thesis using u f assms(2,6) by (simp add: HasError_append)
qed

theorem Update_gone_and_present_is_noop_witness:
  "Update sampleOps (sampleClient [txtRecord ''v=one'', txtRecord ''v=new''])
      (sampleRequest (txtState ''v=new'') (txtState ''v=old'')) ((), [])
     = (\<lparr> Diagnostics = [], NewState = StateSet (txtState ''v=new'') \<rparr>,
        ((), [CallGetRecords ''example.com'' REC_TXT ''@'']))"
  using Update_gone_and_present_is_noop
    [where req = "sampleRequest (txtState ''v=new'') (txtState ''v=old'')"
       and planDiags = "[]" and planData = "txtState ''v=new''"
       and stateDiags = "[]" and stateData = "txtState ''v=old''"
       and apiDomain = "''example.com''" and apiRecPlan = "txtRecord ''v=new''"
       and c = "sampleClient [txtRecord ''v=one'', txtRecord ''v=new'']"
       and w = "((), [])" and m = sampleOps
       and keep = "[txtUpdate ''v=one'', txtUpdate ''v=new'']"
       and w' = "((), [CallGetRecords ''example.com'' REC_TXT ''@''])"]
  by (simp add: sample_defs HasError_def apiRecsToKeep_def doGetRecords_def)

text \<open>
  C8. In a \<open>Delete\<close> of a multi-valued type whose old record is still among the live
  records: after the \<open>GetRecords\<close> call, \<open>Delete\<close> issues exactly one more call, which
  is \<open>DelRecords\<close> for the whole set when the keep-list is empty (never a \<open>SetRecords\<close>
  with an empty list) and otherwise \<open>SetRecords\<close> carrying exactly the keep-list.
\<close>

theorem Delete_present_deletes_or_replaces:
  assumes "reqState req = (stateDiags, stateData)"
    and "\<not> HasError stateDiags"
    and "tf2model stateData = (apiDomain, apiRecState)"
    and "\<not> opIsSingleValue m (rrType apiRecState)"
    and "GetRecords c apiDomain (rrType apiRecState) (rrName apiRecState) (fst w)
           = (Inr live, s')"
    and "\<exists>r \<in> set live. opSameKey m r apiRecState"
  shows "snd (snd (Delete m c req w)) =
           snd w @
           [CallGetRecords apiDomain (rrType apiRecState) (rrName apiRecState),
            (if map (opToUpdate m) (filter (\<lambda>r. \<not> opSameKey m r apiRecState) live) = []
             then CallDelRecords apiDomain (rrType apiRecState) (rrName apiRecState)
             else CallSetRecords apiDomain (rrType apiRecState) (rrName apiRecState)
                    (map (opToUpdate m)
                       (filter (\<lambda>r. \<not> opSameKey m r apiRecState) live)))]"
proof -
  from assms(6) have some: "filter (\<lambda>r. opSameKey m r apiRecState) live \<noteq> []"
    by (simp add: filter_empty_conv)
  have k: "apiRecsToKeep m c stateData w =
             ((map (opToUpdate m) (filter (\<lambda>r. \<not> opSameKey m r apiRecState) live), None),
              (s', snd w @ [CallGetRecords apiDomain (rrType apiRecState)
                              (rrName apiRecState)]))"
    using apiRecsToKeep_Inr [of c stateData w live s' m] assms(3,5) some by simp
  show ?thesis
    using assms(1-4) k
    by (simp add: Delete_def HasError_append doDelRecords_def doSetRecords_def
          split: prod.splits option.splits)
qed

theorem Delete_present_deletes_or_replaces_witness:
  "snd (snd (Delete sampleOps (sampleClient [txtRecord ''v=one''])
               (sampleRequest (txtState ''v=one'') (txtState ''v=one'')) ((), [])))
     = [CallGetRecords ''example.com'' REC_TXT ''@'',
        CallDelRecords ''example.com'' REC_TXT ''@'']
   \<and> snd (snd (Delete sampleOps (sampleClient [txtRecord ''v=one'', txtRecord ''v=two''])
               (sampleRequest (txtState ''v=one'') (txtState ''v=one'')) ((), [])))
     = [CallGetRecords ''example.com'' REC_TXT ''@'',
        CallSetRecords ''example.com'' REC_TXT ''@'' [txtUpdate ''v=two'']]"
  using
    Delete_present_deletes_or_replaces
      [where req = "sampleRequest (txtState ''v=one'') (txtState ''v=one'')"
         and stateDiags = "[]" and stateData = "txtState ''v=one''"
         and apiDomain = "''example.com''" and apiRecState = "txtRecord ''v=one''"
         and c = "sampleClient [txtRecord ''v=one'']"
         and w = "((), [])" and s' = "()" and m = sampleOps
         and live = "[txtRecord ''v=one'']"]
    Delete_present_deletes_or_replaces
      [where req = "sampleRequest (txtState ''v=one'') (txtState ''v=one'')"
         and stateDiags = "[]" and stateData = "txtState ''v=one''"
         and apiDomain = "''example.com''" and apiRecState = "txtRecord ''v=one''"
         and c = "sampleClient [txtRecord ''v=one'', txtRecord ''v=two'']"
         and w = "((), [])" and s' = "()" and m = sampleOps
         and live = "[txtRecord ''v=one'', txtRecord ''v=two'']"]
  by (simp add: sample_defs HasError_def)

section \<open>What ImportState does with the import identifiers of its tests\<close>

lemmas import_eval = ImportState_def IMPORT_SEP_def importValueAttributes_def Let_def

lemma ParseInt_10: "ParseInt ''10'' = Some 10"
  by (simp add: ParseInt_def ParseUint_def isDigit_def Let_def)

lemma ParseInt_nope: "ParseInt ''nope'' = None"
  by (simp add: ParseInt_def ParseUint_def isDigit_def Let_def)

lemma SplitN_badvalue: "SplitN ''badvalue'' CHR '' '' 2 = [''badvalue'']"
  by (simp add: numeral_2_eq_2)

lemma SplitN_mx_blank:
  "SplitN ''10 mail.example.com'' CHR '' '' 2 = [''10'', ''mail.example.com'']"
  by (simp add: numeral_2_eq_2)

lemma SplitN_mx_nope:
  "SplitN ''nope mail.example.com'' CHR '' '' 2 = [''nope'', ''mail.example.com'']"
  by (simp add: numeral_2_eq_2)

lemma SplitN_mx_colon:
  "SplitN ''10:mail.example.com'' CHR '' '' 2 = [''10:mail.example.com'']"
  by (simp add: numeral_2_eq_2)

text \<open>
  C4. \<open>ImportState\<close> splits the identifier at every separator, so the identifier
  of a TXT record whose value holds a colon has five parts and is refused; the value is
  not kept.
\<close>

theorem ImportState_refuses_value_with_colon:
  "ImportState ''example.com:@:TXT:v=spf1 include:example.com ~all'' =
     \<lparr> impDiagnostics =
         [DiagError ''Invalid import ID''
            (''Import ID must be in format 'zone:name:TYPE:value', got: '' @
             ''example.com:@:TXT:v=spf1 include:example.com ~all'')],
       impAttributes = [] \<rparr>
   \<and> length (Split ''example.com:@:TXT:v=spf1 include:example.com ~all'' IMPORT_SEP) = 5"
  by (simp add: import_eval)

text \<open>
  C5. The identifier \<open>bad\<close> is refused with a message that contains
  \<open>Import ID must be in format\<close>, but the identifier with an empty trailing value
  has four parts and is accepted: no diagnostic, and \<open>ip_address\<close> set to the empty
  string.
\<close>

theorem ImportState_accepts_empty_value:
  "ImportState ''example.com:@:A:'' =
     \<lparr> impDiagnostics = [],
       impAttributes =
         [(''domain'', AttrString ''example.com''), (''type'', AttrString ''A''),
          (''ip_address'', AttrString []), (''ttl'', AttrInt64 3600)] \<rparr>
   \<and> impAttributes (ImportState ''bad'') = []
   \<and> list_all (\<lambda>d. isDiagError d \<and> Contains (diagDetail d) ''Import ID must be in format'')
       (impDiagnostics (ImportState ''bad''))
   \<and> length (impDiagnostics (ImportState ''bad'')) = 1"
  by (simp add: import_eval)

text \<open>
  C6. \<open>ImportState\<close> reads an MX value as \<open>preference exchange\<close>, split at a blank,
  and reports nothing when the value has another shape: the value
  \<open>10:mail.example.com\<close> sets neither preference nor exchange (and, inside an
  identifier, makes it five parts long, so it is refused as a whole), \<open>badvalue\<close> is
  accepted without a diagnostic, and a preference that is not a number is skipped
  silently.
\<close>

theorem ImportState_MX_value_is_blank_separated:
  "importValueAttributes ''MX'' ''10:mail.example.com'' = []
   \<and> importValueAttributes ''MX'' ''10 mail.example.com''
       = [(''preference'', AttrInt64 10), (''exchange'', AttrString ''mail.example.com'')]
   \<and> importValueAttributes ''MX'' ''nope mail.example.com''
       = [(''exchange'', AttrString ''mail.example.com'')]
   \<and> ImportState ''example.com:@:MX:10:mail.example.com'' =
       \<lparr> impDiagnostics =
           [DiagError ''Invalid import ID''
              (''Import ID must be in format 'zone:name:TYPE:value', got: '' @
               ''example.com:@:MX:10:mail.example.com'')],
         impAttributes = [] \<rparr>
   \<and> ImportState ''example.com:@:MX:badvalue'' =
       \<lparr> impDiagnostics = [],
         impAttributes =
           [(''domain'', AttrString ''example.com''), (''type'', AttrString ''MX''),
            (''ttl'', AttrInt64 3600)] \<rparr>"
  by (simp add: import_eval SplitN_badvalue SplitN_mx_blank SplitN_mx_nope SplitN_mx_colon
        ParseInt_10 ParseInt_nope)

end
